theory Spec2Isabelle
  imports Complex_Main "HOL-Library.Product_Lexorder"
begin

section \<open>Python values, exceptions and arithmetic\<close>

text \<open>
  The module \<^verbatim>\<open>kungpao/utils.py\<close> is Python over numpy. Python floats are modelled by
  the reals (no rounding, no NaN unless a function says so), Python integers by \<open>int\<close>,
  and a raised exception by the left injection of a sum type.
\<close>

datatype error = ValueError | IndexError | KeyError | ZeroDivisionError | OverflowError

definition bnd :: "error + 'a \<Rightarrow> ('a \<Rightarrow> error + 'b) \<Rightarrow> error + 'b" where
  "bnd m f = (case m of Inl e \<Rightarrow> Inl e | Inr x \<Rightarrow> f x)"

text \<open>Python's \<^verbatim>\<open>x % m\<close> on numbers: the result has the sign of the divisor.\<close>

definition py_mod :: "real \<Rightarrow> real \<Rightarrow> error + real" where
  "py_mod x m = (if m = 0 then Inl ZeroDivisionError else Inr (x - m * of_int \<lfloor>x / m\<rfloor>))"

text \<open>True division (the module imports \<^verbatim>\<open>division\<close> from \<^verbatim>\<open>__future__\<close>).\<close>

definition py_div :: "real \<Rightarrow> real \<Rightarrow> error + real" where
  "py_div x y = (if y = 0 then Inl ZeroDivisionError else Inr (x / y))"

text \<open>Indexing a sequence with a Python integer: a negative index counts from the end.\<close>

definition py_index :: "'a list \<Rightarrow> int \<Rightarrow> error + 'a" where
  "py_index xs i =
     (if 0 \<le> i \<and> i < int (length xs) then Inr (xs ! nat i)
      else if i < 0 \<and> - int (length xs) \<le> i then Inr (xs ! nat (int (length xs) + i))
      else Inl IndexError)"

text \<open>The slice \<^verbatim>\<open>xs[i:j]\<close>: both ends are clipped to the sequence, never an error.\<close>

definition py_slice :: "'a list \<Rightarrow> int \<Rightarrow> int \<Rightarrow> 'a list" where
  "py_slice xs i j =
     (let n = int (length xs);
          a = (if i < 0 then max 0 (n + i) else min i n);
          b = (if j < 0 then max 0 (n + j) else min j n)
      in take (nat (b - a)) (drop (nat a) xs))"

section \<open>Angle normalisation\<close>

text \<open>
  \<^verbatim>\<open>normalize_angle(num, lower=0, upper=360, b=False)\<close>. The range check sits inside
  the branch for \<^verbatim>\<open>not b\<close>; the branch for \<^verbatim>\<open>b\<close> starts with \<^verbatim>\<open>total_length\<close>.
  The final \<^verbatim>\<open>res *= 1.0\<close> is the multiplication by one.
\<close>

definition normalize_angle :: "real \<Rightarrow> real \<Rightarrow> real \<Rightarrow> bool \<Rightarrow> error + real" where
  "normalize_angle num lower upper b =
     (if \<not> b then
        if lower \<ge> upper then Inl ValueError
        else
          bnd (if num > upper \<or> num = lower
               then bnd (py_mod \<bar>num + upper\<bar> (\<bar>lower\<bar> + \<bar>upper\<bar>)) (\<lambda>r. Inr (lower + r))
               else Inr num) (\<lambda>num1.
          bnd (if num1 < lower \<or> num1 = upper
               then bnd (py_mod \<bar>num1 - lower\<bar> (\<bar>lower\<bar> + \<bar>upper\<bar>)) (\<lambda>r. Inr (upper - r))
               else Inr num1) (\<lambda>num2.
          Inr ((if num2 = upper then lower else num2) * 1)))
      else
        let total_length = \<bar>lower\<bar> + \<bar>upper\<bar> in
          bnd (if num < - total_length
               then bnd (py_div num (- 2 * total_length))
                      (\<lambda>q. Inr (num + of_int \<lceil>q\<rceil> * 2 * total_length))
               else Inr num) (\<lambda>num1.
          bnd (if num1 > total_length
               then bnd (py_div num1 (2 * total_length))
                      (\<lambda>q. Inr (num1 - of_int \<lfloor>q\<rfloor> * 2 * total_length))
               else Inr num1) (\<lambda>num2.
          let num3 = (if num2 > upper then total_length - num2 else num2);
              num4 = (if num3 < lower then - total_length - num3 else num3)
          in Inr (num4 * 1))))"

section \<open>Weighted median\<close>

text \<open>\<^verbatim>\<open>sys.float_info.epsilon\<close> of IEEE double precision.\<close>

definition float_epsilon :: real where
  "float_epsilon = 1 / 2 ^ 52"

text \<open>\<^verbatim>\<open>weights.index(max(weights))\<close>: the first position of the largest weight.\<close>

fun index_of :: "'a list \<Rightarrow> 'a \<Rightarrow> error + nat" where
  "index_of [] v = Inl ValueError"
| "index_of (x # xs) v = (if x = v then Inr 0 else bnd (index_of xs v) (\<lambda>i. Inr (Suc i)))"

definition py_max :: "real list \<Rightarrow> error + real" where
  "py_max xs = (case xs of [] \<Rightarrow> Inl ValueError | y # ys \<Rightarrow> Inr (fold max ys y))"

text \<open>
  The \<^verbatim>\<open>while cumulative_weight <= midpoint\<close> loop. Each round increments the index and
  reads \<^verbatim>\<open>sorted_weights[below_midpoint_index-1]\<close>, which raises past the end.
\<close>

function while_cumulative :: "real \<Rightarrow> real list \<Rightarrow> real \<Rightarrow> nat \<Rightarrow> error + real \<times> nat" where
  "while_cumulative midpoint sorted_weights cumulative_weight below_midpoint_index =
     (if cumulative_weight \<le> midpoint
      then if below_midpoint_index < length sorted_weights
           then while_cumulative midpoint sorted_weights
                  (cumulative_weight + sorted_weights ! below_midpoint_index)
                  (below_midpoint_index + 1)
           else Inl IndexError
      else Inr (cumulative_weight, below_midpoint_index))"
  by pat_completeness auto
termination
  by (relation "measure (\<lambda>(m, sw, c, i). length sw - i)") auto

declare while_cumulative.simps [simp del]

text \<open>
  \<^verbatim>\<open>weighted_median(data, weights=None)\<close>. Without weights it is numpy's median, an
  external function taken as the parameter \<open>np_median\<close>. A call that reaches the end of
  the body returns Python's \<^verbatim>\<open>None\<close>, the \<open>None\<close> of the result here.
\<close>

definition weighted_median ::
  "(real list \<Rightarrow> real) \<Rightarrow> real list \<Rightarrow> real list option \<Rightarrow> error + real option" where
  "weighted_median np_median data weights =
     (case weights of
        None \<Rightarrow> Inr (Some (np_median data))
      | Some ws \<Rightarrow>
          let midpoint = 0.5 * sum_list ws in
          if list_ex (\<lambda>j. j > midpoint) ws then
            bnd (py_max ws) (\<lambda>m.
            bnd (index_of ws m) (\<lambda>i.
            bnd (py_index data (int i)) (\<lambda>d. Inr (Some d))))
          else if list_ex (\<lambda>j. j > 0) ws then
            let pairs = sort (zip data ws) in
            if pairs = [] then Inl ValueError
            else
              let sorted_data = map fst pairs; sorted_weights = map snd pairs in
              bnd (while_cumulative midpoint sorted_weights 0 0) (\<lambda>(cw, below_midpoint_index).
              bnd (py_index sorted_weights (int below_midpoint_index - 1)) (\<lambda>w.
                let cumulative_weight = cw - w in
                if cumulative_weight - midpoint < float_epsilon then
                  let bounds = py_slice sorted_data (int below_midpoint_index - 2)
                                 (int below_midpoint_index)
                  in bnd (py_div (sum_list bounds) (real (length bounds))) (\<lambda>r. Inr (Some r))
                else bnd (py_index sorted_data (int below_midpoint_index - 1))
                       (\<lambda>d. Inr (Some d))))
          else Inr None)"

text \<open>\<^verbatim>\<open>np.cumsum\<close>: the running sums of a list.\<close>

fun cumsum_from :: "real \<Rightarrow> real list \<Rightarrow> real list" where
  "cumsum_from acc [] = []"
| "cumsum_from acc (x # xs) = (acc + x) # cumsum_from (acc + x) xs"

definition np_cumsum :: "real list \<Rightarrow> real list" where
  "np_cumsum xs = cumsum_from 0 xs"

text \<open>
  \<^verbatim>\<open>numpy_weighted_median(data, weights=None)\<close>, the numpy version of the same function.
  It asks for a positive weight first, and for a weight above the midpoint only
  inside that branch. \<^verbatim>\<open>data[weights == np.max(weights)]\<close> raises when the two arrays
  differ in length; \<^verbatim>\<open>np.where(...)[0][-1]\<close> raises when no running sum is below the
  midpoint; the slice whose mean is taken holds one or two values.
\<close>

definition numpy_weighted_median ::
  "(real list \<Rightarrow> real) \<Rightarrow> real list \<Rightarrow> real list option \<Rightarrow> error + real option" where
  "numpy_weighted_median np_median data weights =
     (case weights of
        None \<Rightarrow> Inr (Some (np_median data))
      | Some ws \<Rightarrow>
          if list_ex (\<lambda>j. j > 0) ws then
            let pairs = sort (zip data ws) in
            if pairs = [] then Inl ValueError
            else
              let sorted_data = map fst pairs; sorted_weights = map snd pairs;
                  midpoint = 0.5 * sum_list sorted_weights in
              if list_ex (\<lambda>j. j > midpoint) ws then
                bnd (py_max ws) (\<lambda>m.
                  if length data \<noteq> length ws then Inl IndexError
                  else bnd (py_index (map fst (filter (\<lambda>p. snd p = m) (zip data ws))) 0)
                         (\<lambda>d. Inr (Some d)))
              else
                let cumulative_weight = np_cumsum sorted_weights in
                bnd (py_index (filter (\<lambda>i. cumulative_weight ! i \<le> midpoint)
                                 [0..<length cumulative_weight]) (- 1))
                  (\<lambda>below_midpoint_index.
                    if cumulative_weight ! below_midpoint_index - midpoint < float_epsilon
                    then let part = py_slice sorted_data (int below_midpoint_index)
                                      (int below_midpoint_index + 2)
                         in Inr (Some (sum_list part / real (length part)))
                    else bnd (py_index sorted_data (int below_midpoint_index + 1))
                           (\<lambda>d. Inr (Some d)))
          else Inr None)"

section \<open>Random state construction\<close>

text \<open>
  A Python float is a finite number, an infinity or NaN; \<^verbatim>\<open>int(x)\<close> truncates a finite
  float towards zero and raises on the other two.
\<close>

datatype pyfloat = Finite real | PosInf | NegInf | NaN

definition py_int :: "pyfloat \<Rightarrow> error + int" where
  "py_int x =
     (case x of
        Finite r \<Rightarrow> Inr (if r \<ge> 0 then \<lfloor>r\<rfloor> else \<lceil>r\<rceil>)
      | PosInf \<Rightarrow> Inl OverflowError
      | NegInf \<Rightarrow> Inl OverflowError
      | NaN \<Rightarrow> Inl ValueError)"

text \<open>
  The values a caller can pass as \<^verbatim>\<open>seed\<close>, by the type tests of the source: \<^verbatim>\<open>None\<close>,
  the module \<^verbatim>\<open>numpy.random\<close>, an integer (\<^verbatim>\<open>numbers.Integral\<close> or \<^verbatim>\<open>np.integer\<close>),
  another real number (\<^verbatim>\<open>numbers.Real\<close>: a float), a \<^verbatim>\<open>RandomState\<close> instance, a list,
  a string, and any object of another type.
\<close>

datatype 'g seed =
    SNone
  | SNumpyRandom
  | SInt int
  | SFloat pyfloat
  | SRandomState 'g
  | SList "'g seed list"
  | SStr string
  | SObject

text \<open>What the source hands to numpy's constructor: an integer, or the list as it is.\<close>

datatype 'g seedarg = IntSeed int | ListSeed "'g seed list"

fun is_integral :: "'g seed \<Rightarrow> bool" where
  "is_integral (SInt n) = True"
| "is_integral s = False"

text \<open>
  \<^verbatim>\<open>check_random_state(seed)\<close>. numpy is external: its constructor
  \<^verbatim>\<open>np.random.RandomState\<close> is the parameter \<open>RandomState\<close> (it may raise, for a seed it
  rejects) and its singleton \<^verbatim>\<open>np.random.mtrand._rand\<close> the parameter \<open>mtrand_rand\<close>.
  The tests are tried in the order of the source; a list whose first element is not an
  integer falls through to the final \<^verbatim>\<open>raise ValueError\<close>.
\<close>

fun check_random_state ::
  "('g seedarg \<Rightarrow> error + 'g) \<Rightarrow> 'g \<Rightarrow> 'g seed \<Rightarrow> error + 'g" where
  "check_random_state RandomState mtrand_rand SNone = Inr mtrand_rand"
| "check_random_state RandomState mtrand_rand SNumpyRandom = Inr mtrand_rand"
| "check_random_state RandomState mtrand_rand (SInt n) = RandomState (IntSeed n)"
| "check_random_state RandomState mtrand_rand (SFloat x) =
     bnd (py_int x) (\<lambda>n. RandomState (IntSeed n))"
| "check_random_state RandomState mtrand_rand (SRandomState g) = Inr g"
| "check_random_state RandomState mtrand_rand (SList xs) =
     bnd (py_index xs 0) (\<lambda>x0.
       if is_integral x0 then RandomState (ListSeed xs) else Inl ValueError)"
| "check_random_state RandomState mtrand_rand (SStr s) = Inl ValueError"
| "check_random_state RandomState mtrand_rand SObject = Inl ValueError"

section \<open>Angular distances and the pair counter\<close>

text \<open>\<^verbatim>\<open>np.arctan2(y, x)\<close>: the angle of the point \<open>(x, y)\<close>, in \<open>(-\<pi>, \<pi>]\<close>.\<close>

definition arctan2 :: "real \<Rightarrow> real \<Rightarrow> real" where
  "arctan2 y x =
     (if x > 0 then arctan (y / x)
      else if x < 0 \<and> y \<ge> 0 then arctan (y / x) + pi
      else if x < 0 then arctan (y / x) - pi
      else if y > 0 then pi / 2
      else if y < 0 then - pi / 2
      else 0)"

definition deg2rad :: real where
  "deg2rad = pi / 180"

text \<open>The unit vector of a sky position, as both \<^verbatim>\<open>xyz_1\<close> and the rows of \<^verbatim>\<open>xyz_2\<close>.\<close>

definition xyz :: "real \<Rightarrow> real \<Rightarrow> real \<times> real \<times> real" where
  "xyz ra dec =
     (cos (dec * deg2rad) * cos (ra * deg2rad),
      cos (dec * deg2rad) * sin (ra * deg2rad),
      sin (dec * deg2rad))"

text \<open>\<^verbatim>\<open>np.cross\<close> and the row-wise dot product \<^verbatim>\<open>np.sum(xyz_1 * xyz_2, axis=1)\<close>.\<close>

definition cross :: "real \<times> real \<times> real \<Rightarrow> real \<times> real \<times> real \<Rightarrow> real \<times> real \<times> real" where
  "cross u v =
     (case u of (x1, y1, z1) \<Rightarrow> case v of (x2, y2, z2) \<Rightarrow>
        (y1 * z2 - z1 * y2, z1 * x2 - x1 * z2, x1 * y2 - y1 * x2))"

definition dot :: "real \<times> real \<times> real \<Rightarrow> real \<times> real \<times> real \<Rightarrow> real" where
  "dot u v = (case u of (x1, y1, z1) \<Rightarrow> case v of (x2, y2, z2) \<Rightarrow> x1 * x2 + y1 * y2 + z1 * z2)"

definition sum_sq :: "real \<times> real \<times> real \<Rightarrow> real" where
  "sum_sq u = (case u of (x, y, z) \<Rightarrow> x\<^sup>2 + y\<^sup>2 + z\<^sup>2)"

text \<open>
  \<^verbatim>\<open>angular_distance(ra_1, dec_1, ra_arr_2, dec_arr_2)\<close>: one separation in arcsec per
  position of the second catalog, in the order of that catalog. The two coordinate
  columns come from the same table, hence the list of pairs.
\<close>

definition angular_distance :: "real \<Rightarrow> real \<Rightarrow> (real \<times> real) list \<Rightarrow> real list" where
  "angular_distance ra_1 dec_1 radec_arr_2 =
     map (\<lambda>(ra_2, dec_2).
            arctan2 (sqrt (sum_sq (cross (xyz ra_1 dec_1) (xyz ra_2 dec_2))))
                    (dot (xyz ra_1 dec_1) (xyz ra_2 dec_2)) / deg2rad * 3600)
         radec_arr_2"

text \<open>
  \<^verbatim>\<open>kpc_scale_erin(cosmo, redshift)\<close>. The cosmology object belongs to an external
  library; the model takes its method \<^verbatim>\<open>Da(zmin, zmax)\<close> as the function \<open>cosmo\<close>.
\<close>

definition kpc_scale_erin :: "(real \<Rightarrow> real \<Rightarrow> real) \<Rightarrow> real \<Rightarrow> real" where
  "kpc_scale_erin cosmo redshift = cosmo 0 redshift / 206.264806"

text \<open>
  A catalog is a sequence of rows, a row maps column names to numbers. Reading a column
  that a row does not have raises \<^verbatim>\<open>KeyError\<close>.
\<close>

type_synonym row = "string \<rightharpoonup> real"

definition field :: "row \<Rightarrow> string \<Rightarrow> error + real" where
  "field obj col = (case obj col of None \<Rightarrow> Inl KeyError | Some v \<Rightarrow> Inr v)"

fun column :: "row list \<Rightarrow> string \<Rightarrow> error + real list" where
  "column [] col = Inr []"
| "column (obj # cat) col =
     bnd (field obj col) (\<lambda>v. bnd (column cat col) (\<lambda>vs. Inr (v # vs)))"

text \<open>\<^verbatim>\<open>np.where(sep < r_kpc)\<close>: the positions that satisfy the test, ascending.\<close>

definition np_where_less :: "real list \<Rightarrow> real \<Rightarrow> nat list" where
  "np_where_less sep r = filter (\<lambda>j. sep ! j < r) [0..<length sep]"

text \<open>\<^verbatim>\<open>np.sum(sep < r_kpc)\<close>: the number of entries that satisfy the test.\<close>

definition np_sum_less :: "real list \<Rightarrow> real \<Rightarrow> int" where
  "np_sum_less sep r = int (length (filter (\<lambda>d. d < r) sep))"

text \<open>
  The first two statements of the body of the \<^verbatim>\<open>for obj1 in cat1\<close> loop of
  \<^verbatim>\<open>table_pair_match_physical\<close>: the projected distances \<^verbatim>\<open>sep\<close> in kpc from one
  object to every position of the second catalog.
\<close>

definition sep_kpc ::
  "(real \<Rightarrow> real \<Rightarrow> real) \<Rightarrow> string \<Rightarrow> string \<Rightarrow> string \<Rightarrow> row list \<Rightarrow> row \<Rightarrow> error + real list" where
  "sep_kpc cosmo z_col ra_col dec_col cat2 obj1 =
     bnd (field obj1 z_col) (\<lambda>z.
     let scale = kpc_scale_erin cosmo z in
     bnd (field obj1 ra_col) (\<lambda>ra_1.
     bnd (field obj1 dec_col) (\<lambda>dec_1.
     bnd (column cat2 ra_col) (\<lambda>ra_arr_2.
     bnd (column cat2 dec_col) (\<lambda>dec_arr_2.
     Inr (map (\<lambda>d. d * scale) (angular_distance ra_1 dec_1 (zip ra_arr_2 dec_arr_2))))))))"

text \<open>
  The rest of the loop body: the count and the index array appended for the object.
  One is subtracted from the count in the \<^verbatim>\<open>if include\<close> branch.
\<close>

definition pair_match_obj ::
  "(real \<Rightarrow> real \<Rightarrow> real) \<Rightarrow> string \<Rightarrow> string \<Rightarrow> string \<Rightarrow> real \<Rightarrow> bool \<Rightarrow>
   row list \<Rightarrow> row \<Rightarrow> error + int \<times> nat list" where
  "pair_match_obj cosmo z_col ra_col dec_col r_kpc include cat2 obj1 =
     bnd (sep_kpc cosmo z_col ra_col dec_col cat2 obj1) (\<lambda>sep.
     Inr (if include then np_sum_less sep r_kpc - 1 else np_sum_less sep r_kpc,
          np_where_less sep r_kpc))"

text \<open>The loop over the first catalog; the first exception ends it.\<close>

fun pair_match_loop ::
  "(real \<Rightarrow> real \<Rightarrow> real) \<Rightarrow> string \<Rightarrow> string \<Rightarrow> string \<Rightarrow> real \<Rightarrow> bool \<Rightarrow>
   row list \<Rightarrow> row list \<Rightarrow> error + int list \<times> nat list list" where
  "pair_match_loop cosmo z_col ra_col dec_col r_kpc include cat2 [] = Inr ([], [])"
| "pair_match_loop cosmo z_col ra_col dec_col r_kpc include cat2 (obj1 # cat1) =
     bnd (pair_match_obj cosmo z_col ra_col dec_col r_kpc include cat2 obj1) (\<lambda>(n, idx).
     bnd (pair_match_loop cosmo z_col ra_col dec_col r_kpc include cat2 cat1) (\<lambda>(num_pair, index_pair).
     Inr (n # num_pair, idx # index_pair)))"

text \<open>
  \<^verbatim>\<open>table_pair_match_physical(cat1, cat2, z_col, r_kpc, cosmo, ra_col, dec_col, include)\<close>
  returns the counts and the index arrays, both in the order of the first catalog.
\<close>

definition table_pair_match_physical ::
  "row list \<Rightarrow> row list \<Rightarrow> string \<Rightarrow> real \<Rightarrow> (real \<Rightarrow> real \<Rightarrow> real) \<Rightarrow> string \<Rightarrow> string \<Rightarrow> bool \<Rightarrow>
   error + int list \<times> nat list list" where
  "table_pair_match_physical cat1 cat2 z_col r_kpc cosmo ra_col dec_col include =
     pair_match_loop cosmo z_col ra_col dec_col r_kpc include cat2 cat1"

section \<open>Images, the object store and the external libraries\<close>

text \<open>
  A two-dimensional numpy array is its shape (rows, columns) and its element at each
  row and column; only the elements inside the shape mean anything.
\<close>

record 'a ndarray =
  shape :: "nat \<times> nat"
  elems :: "nat \<Rightarrow> nat \<Rightarrow> 'a"

text \<open>
  Image arrays are mutable objects, and \<^verbatim>\<open>image_clean_up\<close> writes into arrays. The float
  arrays therefore live in a store: a reference is an address, \<open>fresh\<close> is the next
  unused address, and the objects that exist are those below it.
\<close>

type_synonym ref = nat

record heap =
  cells :: "ref \<Rightarrow> real ndarray"
  fresh :: ref

text \<open>\<^verbatim>\<open>copy.deepcopy(a)\<close>: a new object with the contents of the old one.\<close>

definition deepcopy :: "heap \<Rightarrow> ref \<Rightarrow> ref \<times> heap" where
  "deepcopy h r =
     (fresh h, h\<lparr>cells := (cells h)(fresh h := cells h r), fresh := Suc (fresh h)\<rparr>)"

definition store :: "heap \<Rightarrow> ref \<Rightarrow> real ndarray \<Rightarrow> heap" where
  "store h r a = h\<lparr>cells := (cells h)(r := a)\<rparr>"

text \<open>\<^verbatim>\<open>a[r, c]\<close> raises outside the shape.\<close>

definition arr_get :: "'a ndarray \<Rightarrow> nat \<Rightarrow> nat \<Rightarrow> error + 'a" where
  "arr_get a r c =
     (if r < fst (shape a) \<and> c < snd (shape a) then Inr (elems a r c) else Inl IndexError)"

text \<open>
  Element-wise arithmetic of two arrays. numpy raises \<^verbatim>\<open>ValueError\<close> for shapes it cannot
  broadcast; the model asks for equal shapes, which is what the library calls below
  deliver.
\<close>

definition arr_binop :: "('a \<Rightarrow> 'a \<Rightarrow> 'a) \<Rightarrow> 'a ndarray \<Rightarrow> 'a ndarray \<Rightarrow> error + 'a ndarray" where
  "arr_binop f a b =
     (if shape a = shape b
      then Inr \<lparr>shape = shape a, elems = (\<lambda>r c. f (elems a r c) (elems b r c))\<rparr>
      else Inl ValueError)"

text \<open>The comparisons \<^verbatim>\<open>a > 0\<close>, \<^verbatim>\<open>a <= 0\<close> and \<^verbatim>\<open>a == v\<close>, each a boolean array.\<close>

definition arr_test :: "('a \<Rightarrow> bool) \<Rightarrow> 'a ndarray \<Rightarrow> bool ndarray" where
  "arr_test p a = \<lparr>shape = shape a, elems = (\<lambda>r c. p (elems a r c))\<rparr>"

text \<open>
  \<^verbatim>\<open>a[m] = b[m]\<close> with a boolean array \<^verbatim>\<open>m\<close>: numpy raises \<^verbatim>\<open>IndexError\<close> unless \<^verbatim>\<open>m\<close> has the
  shape of both arrays; the selected elements are then replaced position by position.
\<close>

definition masked_assign :: "'a ndarray \<Rightarrow> bool ndarray \<Rightarrow> 'a ndarray \<Rightarrow> error + 'a ndarray" where
  "masked_assign a m b =
     (if shape m = shape a \<and> shape m = shape b
      then Inr \<lparr>shape = shape a, elems = (\<lambda>r c. if elems m r c then elems b r c else elems a r c)\<rparr>
      else Inl IndexError)"

text \<open>\<^verbatim>\<open>a[m] = v\<close> with a scalar \<^verbatim>\<open>v\<close>.\<close>

definition masked_fill :: "'a ndarray \<Rightarrow> bool ndarray \<Rightarrow> 'a \<Rightarrow> error + 'a ndarray" where
  "masked_fill a m v =
     (if shape m = shape a
      then Inr \<lparr>shape = shape a, elems = (\<lambda>r c. if elems m r c then v else elems a r c)\<rparr>
      else Inl IndexError)"

text \<open>
  The parameter dictionaries of the three passes, with the keys the source reads. They
  are records here, so a dictionary that lacks a key is outside the model.
\<close>

record bkg_param =
  bw :: nat
  bh :: nat
  fw :: nat
  fh :: nat

record det_param =
  thr :: real
  minarea :: nat
  deb_n :: nat
  deb_c :: real

text \<open>
  What the source reads of a \<^verbatim>\<open>sep.Background\<close> object: the two global numbers and the
  arrays that its methods \<^verbatim>\<open>back()\<close> and \<^verbatim>\<open>rms()\<close> return, a new array at each call.
\<close>

record bkg =
  globalback :: real
  globalrms :: real
  bkg_back :: "real ndarray"
  bkg_rms :: "real ndarray"

text \<open>The \<^verbatim>\<open>mask\<close> argument of \<^verbatim>\<open>sep.Background\<close>; \<^verbatim>\<open>maskthresh\<close> is 0 at every call.\<close>

datatype mask = NoMask | BoolMask "bool ndarray" | IntMask "int ndarray"

text \<open>The \<^verbatim>\<open>loc\<close> and \<^verbatim>\<open>scale\<close> arguments of \<^verbatim>\<open>np.random.normal\<close>: a number or an array.\<close>

datatype farg = Scalar real | Array "real ndarray"

text \<open>
  The external libraries, as functions: \<^verbatim>\<open>sep.Background(data, mask, bw, bh, fw, fh)\<close>,
  \<^verbatim>\<open>sep.extract(data, thresh, err, minarea, deblend_nthresh, deblend_cont)\<close> with its
  pair of the object table and the segmentation map, and
  \<^verbatim>\<open>np.random.normal(loc, scale, size)\<close>, whose value here is the sample drawn at this
  call. They read their arguments and write nothing; a fault inside a library is
  outside the model.
\<close>

record 'o libs =
  sep_Background :: "real ndarray \<Rightarrow> mask \<Rightarrow> nat \<Rightarrow> nat \<Rightarrow> nat \<Rightarrow> nat \<Rightarrow> bkg"
  sep_extract :: "real ndarray \<Rightarrow> real \<Rightarrow> real ndarray option \<Rightarrow> nat \<Rightarrow> nat \<Rightarrow> real
                  \<Rightarrow> 'o list \<times> int ndarray"
  np_random_normal :: "farg \<Rightarrow> farg \<Rightarrow> nat \<times> nat \<Rightarrow> real ndarray"

section \<open>The image cleaner\<close>

text \<open>
  \<^verbatim>\<open>seg_index_cen_obj(seg)\<close>: the label at row \<^verbatim>\<open>int(shape[0] / 2)\<close> and column
  \<^verbatim>\<open>int(shape[1] / 2)\<close>; \<^verbatim>\<open>None\<close> for label 0, else the boolean array \<^verbatim>\<open>seg == cen_obj\<close>.
\<close>

definition seg_index_cen_obj :: "int ndarray \<Rightarrow> error + bool ndarray option" where
  "seg_index_cen_obj seg =
     bnd (arr_get seg (fst (shape seg) div 2) (snd (shape seg) div 2)) (\<lambda>cen_obj.
       if cen_obj = 0 then Inr None else Inr (Some (arr_test (\<lambda>v. v = cen_obj) seg)))"

text \<open>
  Pass 1 of \<^verbatim>\<open>image_clean_up\<close>: the local sky \<^verbatim>\<open>bkg_1\<close> with the bad-pixel mask, and the
  detection on \<^verbatim>\<open>img - bkg_1.back()\<close>.
\<close>

definition pass_1 ::
  "'o libs \<Rightarrow> real ndarray \<Rightarrow> real ndarray option \<Rightarrow> mask \<Rightarrow> bkg_param \<Rightarrow> det_param
   \<Rightarrow> error + bkg \<times> 'o list \<times> int ndarray" where
  "pass_1 L img sig bad bkg_param_1 det_param_1 =
     (let bkg_1 = sep_Background L img bad (bw bkg_param_1) (bh bkg_param_1)
                    (fw bkg_param_1) (fh bkg_param_1)
      in bnd (arr_binop (-) img (bkg_back bkg_1)) (\<lambda>d.
         case sep_extract L d (thr det_param_1) sig (minarea det_param_1)
                (deb_n det_param_1) (deb_c det_param_1) of
           (obj_1, seg_1) \<Rightarrow> Inr (bkg_1, obj_1, seg_1)))"

text \<open>Pass 2: the background without a mask, and the detection on the image itself.\<close>

definition pass_2 ::
  "'o libs \<Rightarrow> real ndarray \<Rightarrow> real ndarray option \<Rightarrow> bkg_param \<Rightarrow> det_param
   \<Rightarrow> bkg \<times> 'o list \<times> int ndarray" where
  "pass_2 L img sig bkg_param_2 det_param_2 =
     (let bkg_2 = sep_Background L img NoMask (bw bkg_param_2) (bh bkg_param_2)
                    (fw bkg_param_2) (fh bkg_param_2)
      in case sep_extract L img (thr det_param_2) sig (minarea det_param_2)
                (deb_n det_param_2) (deb_c det_param_2) of
           (obj_2, seg_2) \<Rightarrow> (bkg_2, obj_2, seg_2))"

text \<open>
  The arguments \<^verbatim>\<open>loc\<close> and \<^verbatim>\<open>scale\<close> of the call of \<^verbatim>\<open>np.random.normal\<close>. Without a sigma
  map they are the two global numbers of \<^verbatim>\<open>bkg_3\<close>. With one they are its arrays, after
  \<^verbatim>\<open>sky_sig[sky_sig <= 0] = 1E-8\<close>.
\<close>

definition noise_args :: "real ndarray option \<Rightarrow> bkg \<Rightarrow> error + farg \<times> farg" where
  "noise_args sig bkg_3 =
     (case sig of
        None \<Rightarrow> Inr (Scalar (globalback bkg_3), Scalar (globalrms bkg_3))
      | Some s \<Rightarrow>
          let sky_val = bkg_back bkg_3; sky_sig = bkg_rms bkg_3 in
          bnd (masked_fill sky_sig (arr_test (\<lambda>v. v \<le> 0) sky_sig) (1 / 10 ^ 8)) (\<lambda>sky_sig'.
          Inr (Array sky_val, Array sky_sig')))"

text \<open>
  The combined segmentation map: \<^verbatim>\<open>seg_2 + seg_3\<close>, with the footprint of the central
  object of \<^verbatim>\<open>seg_1\<close> set to 0 when there is one.
\<close>

definition combine_seg :: "int ndarray \<Rightarrow> int ndarray \<Rightarrow> int ndarray \<Rightarrow> error + int ndarray" where
  "combine_seg seg_1 seg_2 seg_3 =
     bnd (arr_binop (+) seg_2 seg_3) (\<lambda>seg_comb.
     bnd (seg_index_cen_obj seg_1) (\<lambda>obj_cen_mask.
       case obj_cen_mask of
         None \<Rightarrow> Inr seg_comb
       | Some m \<Rightarrow> masked_fill seg_comb m 0))"

text \<open>The dictionary \<^verbatim>\<open>everything\<close> of the diagnostic return.\<close>

record 'o everything =
  ev_img :: ref
  ev_sig :: "ref option"
  ev_bkg_1 :: bkg
  ev_obj_1 :: "'o list"
  ev_seg_1 :: "int ndarray"
  ev_bkg_2 :: bkg
  ev_obj_2 :: "'o list"
  ev_seg_2 :: "int ndarray"
  ev_bkg_3 :: bkg
  ev_obj_3 :: "'o list"
  ev_seg_3 :: "int ndarray"
  ev_noise :: "real ndarray"

text \<open>
  An image in which the pixels with a positive label hold the noise value of that
  pixel and the others are as they were: the contents that the statement
  \<^verbatim>\<open>x[seg > 0] = noise[seg > 0]\<close> leaves in a copy \<^verbatim>\<open>x\<close> of the image.
\<close>

definition noise_replaced :: "real ndarray \<Rightarrow> int ndarray \<Rightarrow> real ndarray \<Rightarrow> real ndarray" where
  "noise_replaced a seg noise =
     \<lparr>shape = shape a,
      elems = (\<lambda>r c. if elems seg r c > 0 then elems noise r c else elems a r c)\<rparr>"

text \<open>
  The two statements \<^verbatim>\<open>x = copy.deepcopy(img)\<close> and \<^verbatim>\<open>x[seg > 0] = noise[seg > 0]\<close>, which
  the source writes once for \<^verbatim>\<open>img_noise_replace\<close> with \<^verbatim>\<open>seg_2\<close> and once for \<^verbatim>\<open>img_clean\<close>
  with \<^verbatim>\<open>seg_comb\<close>: the copy is a new object, and the write goes to the copy.
\<close>

definition replace_with_noise ::
  "heap \<Rightarrow> ref \<Rightarrow> int ndarray \<Rightarrow> real ndarray \<Rightarrow> error + ref \<times> heap" where
  "replace_with_noise h img seg noise =
     (case deepcopy h img of (x, h1) \<Rightarrow>
        bnd (masked_assign (cells h1 x) (arr_test (\<lambda>v. v > 0) seg) noise) (\<lambda>replaced.
        Inr (x, store h1 x replaced)))"

text \<open>
  The body of \<^verbatim>\<open>image_clean_up\<close> up to the \<^verbatim>\<open>return\<close>: the reference of \<^verbatim>\<open>img_clean\<close>, the
  intermediate results and the store it leaves. \<^verbatim>\<open>img\<close> and \<^verbatim>\<open>sig\<close> are references into
  the store; the arrays that the libraries return are new objects that nothing else
  refers to, and are kept as values. The \<^verbatim>\<open>verbose\<close> flag only prints.
\<close>

definition image_clean_core ::
  "'o libs \<Rightarrow> heap \<Rightarrow> ref \<Rightarrow> ref option \<Rightarrow> mask \<Rightarrow> bkg_param \<Rightarrow> det_param \<Rightarrow> bkg_param
   \<Rightarrow> det_param \<Rightarrow> bkg_param \<Rightarrow> det_param \<Rightarrow> error + (ref \<times> 'o everything) \<times> heap" where
  "image_clean_core L h img sig bad bkg_param_1 det_param_1 bkg_param_2 det_param_2
       bkg_param_3 det_param_3 =
     bnd (pass_1 L (cells h img) (map_option (cells h) sig) bad bkg_param_1 det_param_1)
       (\<lambda>(bkg_1, obj_1, seg_1).
     case pass_2 L (cells h img) (map_option (cells h) sig) bkg_param_2 det_param_2 of
       (bkg_2, obj_2, seg_2) \<Rightarrow>
     let bkg_3 = sep_Background L (cells h img) (IntMask seg_2) (bw bkg_param_3)
                   (bh bkg_param_3) (fw bkg_param_3) (fh bkg_param_3) in
     bnd (noise_args (map_option (cells h) sig) bkg_3) (\<lambda>(loc, scale).
     let noise = np_random_normal L loc scale (shape (cells h img)) in
     bnd (replace_with_noise h img seg_2 noise) (\<lambda>(img_noise_replace, h2).
     case sep_extract L (cells h2 img_noise_replace) (thr det_param_3)
            (map_option (cells h2) sig) (minarea det_param_3) (deb_n det_param_3)
            (deb_c det_param_3) of
       (obj_3, seg_3) \<Rightarrow>
     bnd (combine_seg seg_1 seg_2 seg_3) (\<lambda>seg_comb.
     bnd (replace_with_noise h2 img seg_comb noise) (\<lambda>(img_clean, h4).
     Inr ((img_clean,
           \<lparr>ev_img = img, ev_sig = sig, ev_bkg_1 = bkg_1, ev_obj_1 = obj_1, ev_seg_1 = seg_1,
            ev_bkg_2 = bkg_2, ev_obj_2 = obj_2, ev_seg_2 = seg_2, ev_bkg_3 = bkg_3,
            ev_obj_3 = obj_3, ev_seg_3 = seg_3, ev_noise = noise\<rparr>),
          h4))))))"

text \<open>The three shapes of the value that \<^verbatim>\<open>image_clean_up\<close> returns.\<close>

datatype ('o, 'f) cleaned =
    Clean ref
  | CleanDiag ref "'o everything"
  | CleanDiagFig ref "'o everything" 'f

fun img_clean_of :: "('o, 'f) cleaned \<Rightarrow> ref" where
  "img_clean_of (Clean r) = r"
| "img_clean_of (CleanDiag r ev) = r"
| "img_clean_of (CleanDiagFig r ev fig) = r"

text \<open>
  \<^verbatim>\<open>image_clean_up\<close>. The figure of \<^verbatim>\<open>diagnose_image_clean\<close> is drawn by a plotting library
  and is the value of a parameter here.
\<close>

definition image_clean_up ::
  "'o libs \<Rightarrow> (heap \<Rightarrow> ref \<Rightarrow> 'o everything \<Rightarrow> 'f) \<Rightarrow> heap \<Rightarrow> ref \<Rightarrow> ref option \<Rightarrow> mask
   \<Rightarrow> bkg_param \<Rightarrow> det_param \<Rightarrow> bkg_param \<Rightarrow> det_param \<Rightarrow> bkg_param \<Rightarrow> det_param
   \<Rightarrow> bool \<Rightarrow> bool \<Rightarrow> error + ('o, 'f) cleaned \<times> heap" where
  "image_clean_up L diagnose_image_clean h img sig bad bkg_param_1 det_param_1 bkg_param_2
       det_param_2 bkg_param_3 det_param_3 visual diagnose =
     bnd (image_clean_core L h img sig bad bkg_param_1 det_param_1 bkg_param_2 det_param_2
            bkg_param_3 det_param_3) (\<lambda>((img_clean, everything), h').
       Inr (if diagnose
            then if visual
                 then CleanDiagFig img_clean everything
                        (diagnose_image_clean h' img_clean everything)
                 else CleanDiag img_clean everything
            else Clean img_clean, h'))"

text \<open>The default parameter dictionaries of the three passes.\<close>

definition bkg_param_1_default :: bkg_param where
  "bkg_param_1_default = \<lparr>bw = 20, bh = 20, fw = 3, fh = 3\<rparr>"

definition det_param_1_default :: det_param where
  "det_param_1_default = \<lparr>thr = 3 / 2, minarea = 40, deb_n = 128, deb_c = 1 / 100000\<rparr>"

definition bkg_param_2_default :: bkg_param where
  "bkg_param_2_default = \<lparr>bw = 150, bh = 150, fw = 7, fh = 7\<rparr>"

definition det_param_2_default :: det_param where
  "det_param_2_default = \<lparr>thr = 2, minarea = 20, deb_n = 64, deb_c = 1 / 1000\<rparr>"

definition bkg_param_3_default :: bkg_param where
  "bkg_param_3_default = \<lparr>bw = 60, bh = 60, fw = 5, fh = 5\<rparr>"

definition det_param_3_default :: det_param where
  "det_param_3_default = \<lparr>thr = 7 / 2, minarea = 10, deb_n = 64, deb_c = 5 / 1000\<rparr>"

text \<open>
  What the libraries promise about shapes: a segmentation map has the shape of the
  data it was extracted from, and a sample has the requested size.
\<close>

definition lib_shapes :: "'o libs \<Rightarrow> bool" where
  "lib_shapes L \<longleftrightarrow>
     (\<forall>d t e a n c. shape (snd (sep_extract L d t e a n c)) = shape d) \<and>
     (\<forall>l s sz. shape (np_random_normal L l s sz) = sz)"

section \<open>Example data\<close>

text \<open>
  The catalog of the pair-counter scenario: one object at \<open>(10, 0)\<close> degrees with redshift
  \<open>0.1\<close>, and a second one 10 arcsec north of it. The example cosmology gives an angular
  diameter distance of 380 Mpc, about 1.84 kpc per arcsec.
\<close>

definition example_cosmo :: "real \<Rightarrow> real \<Rightarrow> real" where
  "example_cosmo zmin zmax = 380"

definition obj_a :: row where
  "obj_a = [''ra'' \<mapsto> 10, ''dec'' \<mapsto> 0, ''z'' \<mapsto> 1 / 10]"

definition obj_b :: row where
  "obj_b = [''ra'' \<mapsto> 10, ''dec'' \<mapsto> 1 / 360, ''z'' \<mapsto> 1 / 10]"

text \<open>
  numpy's median of a non-empty list, for the calls without weights: the middle of the
  sorted values, or the mean of the two middle ones.
\<close>

definition example_median :: "real list \<Rightarrow> real" where
  "example_median xs =
     (let s = sort xs; n = length s
      in if odd n then s ! (n div 2) else (s ! (n div 2 - 1) + s ! (n div 2)) / 2)"

text \<open>
  A generator state that is the integer it was seeded with; like numpy's constructor it
  rejects an integer outside \<open>[0, 2\<^sup>3\<^sup>2)\<close>.
\<close>

fun example_RandomState :: "int seedarg \<Rightarrow> error + int" where
  "example_RandomState (IntSeed n) = (if 0 \<le> n \<and> n < 2 ^ 32 then Inr n else Inl ValueError)"
| "example_RandomState (ListSeed xs) = Inr 0"

text \<open>
  Stand-ins for the libraries: the background is flat at the level of the first pixel,
  its global RMS is 1 (what sep reports for constant data) and its RMS map is 0; every
  pixel above the threshold is an object of its own, labelled by its position; and a
  sample equals its mean. The figure is the unit value.
\<close>

definition example_libs :: "unit libs" where
  "example_libs =
     \<lparr>sep_Background = (\<lambda>data m w h fw' fh'.
        \<lparr>globalback = elems data 0 0, globalrms = 1,
         bkg_back = \<lparr>shape = shape data, elems = (\<lambda>r c. elems data 0 0)\<rparr>,
         bkg_rms = \<lparr>shape = shape data, elems = (\<lambda>r c. 0)\<rparr>\<rparr>),
      sep_extract = (\<lambda>data t e a n c.
        ([], \<lparr>shape = shape data,
              elems = (\<lambda>r c. if elems data r c > t
                              then int (r * snd (shape data) + c) + 1 else 0)\<rparr>)),
      np_random_normal = (\<lambda>loc scale sz.
        \<lparr>shape = sz,
         elems = (\<lambda>r c. case loc of Scalar v \<Rightarrow> v | Array a \<Rightarrow> elems a r c)\<rparr>)\<rparr>"

definition example_figure :: "heap \<Rightarrow> ref \<Rightarrow> unit everything \<Rightarrow> unit" where
  "example_figure h r ev = ()"

text \<open>
  Two images of 3 by 3 pixels. The first has a sky of 0, a source of 500 in a corner
  and an object of 300 at the centre. The second has a sky of 2, the same source, and
  a centre pixel of 3, too faint for pass 1 above the local sky and bright enough for
  pass 2.
\<close>

definition example_img :: "real ndarray" where
  "example_img =
     \<lparr>shape = (3, 3),
      elems = (\<lambda>r c. if r = 0 \<and> c = 2 then 500 else if r = 1 \<and> c = 1 then 300 else 0)\<rparr>"

definition example_img_no_central :: "real ndarray" where
  "example_img_no_central =
     \<lparr>shape = (3, 3),
      elems = (\<lambda>r c. if r = 0 \<and> c = 2 then 500 else if r = 1 \<and> c = 1 then 3 else 2)\<rparr>"

text \<open>
  A background object with global RMS 0. sep does not report one (its global RMS is
  positive); the object serves to show what the code does with the value it is given.
\<close>

definition example_bkg_zero_rms :: bkg where
  "example_bkg_zero_rms =
     \<lparr>globalback = 100, globalrms = 0,
      bkg_back = \<lparr>shape = (3, 3), elems = (\<lambda>r c. 100)\<rparr>,
      bkg_rms = \<lparr>shape = (3, 3), elems = (\<lambda>r c. 0)\<rparr>\<rparr>"

text \<open>A store whose only object, at address 0, is the given image.\<close>

definition example_heap :: "real ndarray \<Rightarrow> heap" where
  "example_heap a = \<lparr>cells = (\<lambda>r. a), fresh = 1\<rparr>"

section \<open>Facts about the exception monad\<close>

lemma bnd_Inr_iff: "bnd m f = Inr y \<longleftrightarrow> (\<exists>x. m = Inr x \<and> f x = Inr y)"
  by (cases m) (simp_all add: bnd_def)

lemma bnd_Inr: "bnd (Inr x) f = f x"
  by (simp add: bnd_def)

lemma bnd_Inl: "bnd (Inl e) f = Inl e"
  by (simp add: bnd_def)

section \<open>Angular distances of the scenario\<close>

lemma cross_self: "cross u u = (0, 0, 0)"
  by (cases u) (simp add: cross_def mult.commute)

lemma unit_aux:
  fixes c s cd sd :: real
  assumes "c\<^sup>2 + s\<^sup>2 = 1" and "cd\<^sup>2 + sd\<^sup>2 = 1"
  shows "(cd * c) * (cd * c) + (cd * s) * (cd * s) + sd * sd = 1"
proof -
  have "(cd * c) * (cd * c) + (cd * s) * (cd * s) + sd * sd = cd\<^sup>2 * (c\<^sup>2 + s\<^sup>2) + sd\<^sup>2"
    by (simp add: power2_eq_square algebra_simps)
  then show ?thesis using assms by simp
qed

lemma dot_xyz_self: "dot (xyz ra dec) (xyz ra dec) = 1"
  unfolding dot_def xyz_def prod.case
  by (rule unit_aux) simp_all

text \<open>A position is at distance 0 from itself.\<close>

lemma angular_distance_self: "angular_distance ra dec [(ra, dec)] = [0]"
  by (simp add: angular_distance_def cross_self dot_xyz_self sum_sq_def arctan2_def)

lemma cross_aux:
  fixes c s cd sd :: real
  assumes "c\<^sup>2 + s\<^sup>2 = 1"
  shows "(s * sd - 0 * (cd * s))\<^sup>2 + (0 * (cd * c) - c * sd)\<^sup>2
           + (c * (cd * s) - s * (cd * c))\<^sup>2 = sd\<^sup>2"
proof -
  have "(s * sd - 0 * (cd * s))\<^sup>2 + (0 * (cd * c) - c * sd)\<^sup>2 + (c * (cd * s) - s * (cd * c))\<^sup>2
        = sd\<^sup>2 * (c\<^sup>2 + s\<^sup>2)"
    by (simp add: power2_eq_square algebra_simps)
  then show ?thesis using assms by simp
qed

lemma sum_sq_cross_meridian:
  "sum_sq (cross (xyz ra 0) (xyz ra dec)) = (sin (dec * deg2rad))\<^sup>2"
proof -
  have "xyz ra 0 = (cos (ra * deg2rad), sin (ra * deg2rad), 0)"
    by (simp add: xyz_def)
  then show ?thesis
    unfolding sum_sq_def cross_def xyz_def prod.case
    using cross_aux [of "cos (ra * deg2rad)" "sin (ra * deg2rad)" "sin (dec * deg2rad)"
        "cos (dec * deg2rad)"]
    by simp
qed

lemma sum_sq_cross_commute: "sum_sq (cross u v) = sum_sq (cross v u)"
  by (cases u, cases v) (simp add: sum_sq_def cross_def power2_eq_square algebra_simps)

lemma dot_commute: "dot u v = dot v u"
  by (cases u, cases v) (simp add: dot_def mult.commute)

lemma dot_aux:
  fixes c s cd :: real
  assumes "c\<^sup>2 + s\<^sup>2 = 1"
  shows "c * (cd * c) + s * (cd * s) = cd"
proof -
  have "c * (cd * c) + s * (cd * s) = cd * (c\<^sup>2 + s\<^sup>2)"
    by (simp add: power2_eq_square algebra_simps)
  then show ?thesis using assms by simp
qed

lemma dot_meridian: "dot (xyz ra 0) (xyz ra dec) = cos (dec * deg2rad)"
  using dot_aux [of "cos (ra * deg2rad)" "sin (ra * deg2rad)" "cos (dec * deg2rad)"]
  by (simp add: dot_def xyz_def)

lemma arctan2_sin_cos:
  assumes "0 \<le> t" and "t < pi / 2"
  shows "arctan2 (sin t) (cos t) = t"
proof -
  have c: "cos t > 0" using assms by (simp add: cos_gt_zero_pi)
  have "arctan (sin t / cos t) = arctan (tan t)" by (simp add: tan_def)
  also have "\<dots> = t" using assms by (simp add: arctan_tan)
  finally show ?thesis using c by (simp add: arctan2_def)
qed

text \<open>
  Two positions on one meridian, one of them on the equator, are as far apart as their
  declinations say.
\<close>

lemma meridian_sep:
  assumes "0 \<le> dec" and "dec < 90"
  shows "arctan2 (sqrt (sum_sq (cross (xyz ra 0) (xyz ra dec)))) (dot (xyz ra 0) (xyz ra dec))
           / deg2rad * 3600 = dec * 3600"
proof -
  let ?d = "dec * deg2rad"
  have d0: "0 \<le> ?d" using assms by (simp add: deg2rad_def)
  have d1: "?d < pi / 2" using assms by (simp add: deg2rad_def)
  have s: "0 \<le> sin ?d" using d0 d1 by (intro sin_ge_zero) simp_all
  have "sqrt (sum_sq (cross (xyz ra 0) (xyz ra dec))) = sin ?d"
    using s by (simp add: sum_sq_cross_meridian)
  then have "arctan2 (sqrt (sum_sq (cross (xyz ra 0) (xyz ra dec))))
               (dot (xyz ra 0) (xyz ra dec)) = ?d"
    using arctan2_sin_cos [OF d0 d1] by (simp add: dot_meridian)
  then show ?thesis by (simp add: deg2rad_def)
qed

lemma angular_distance_from_a:
  "angular_distance 10 0 [(10, 0), (10, 1 / 360)] = [0, 10]"
  using meridian_sep [of "1 / 360" 10] angular_distance_self [of 10 0]
  by (simp add: angular_distance_def)

lemma angular_distance_from_b:
  "angular_distance 10 (1 / 360) [(10, 0), (10, 1 / 360)] = [10, 0]"
proof -
  have "arctan2 (sqrt (sum_sq (cross (xyz 10 (1 / 360)) (xyz 10 0))))
          (dot (xyz 10 (1 / 360)) (xyz 10 0)) / deg2rad * 3600 = 10"
    using meridian_sep [of "1 / 360" 10]
    by (simp only: sum_sq_cross_commute [of "xyz 10 (1 / 360)" "xyz 10 0"]
        dot_commute [of "xyz 10 (1 / 360)" "xyz 10 0"])
  then show ?thesis
    using angular_distance_self [of 10 "1 / 360"] by (simp add: angular_distance_def)
qed

section \<open>The pair counter\<close>

lemma column_length: "column cat col = Inr vs \<Longrightarrow> length vs = length cat"
  by (induction cat arbitrary: vs) (auto simp: bnd_Inr_iff)

lemma sep_kpc_length:
  assumes "sep_kpc cosmo z_col ra_col dec_col cat2 obj1 = Inr sep"
  shows "length sep = length cat2"
  using assms
  by (auto simp: sep_kpc_def bnd_Inr_iff Let_def angular_distance_def dest!: column_length)

text \<open>The count of \<^verbatim>\<open>np.sum\<close> is the length of the index array of \<^verbatim>\<open>np.where\<close>.\<close>

lemma np_sum_less_where: "np_sum_less sep r = int (length (np_where_less sep r))"
proof -
  have "filter (\<lambda>d. d < r) (map ((!) sep) [0..<length sep])
          = map ((!) sep) (filter ((\<lambda>d. d < r) \<circ> (!) sep) [0..<length sep])"
    by (rule filter_map)
  then have "length (filter (\<lambda>d. d < r) sep)
               = length (filter (\<lambda>j. sep ! j < r) [0..<length sep])"
    by (simp add: map_nth comp_def)
  then show ?thesis by (simp add: np_sum_less_def np_where_less_def)
qed

text \<open>The loop appends one count and one index array per object, in order.\<close>

lemma pair_match_loop_nth:
  assumes "pair_match_loop cosmo z_col ra_col dec_col r_kpc include cat2 cat1
             = Inr (num_pair, index_pair)"
  shows "length num_pair = length cat1 \<and> length index_pair = length cat1 \<and>
         (\<forall>i < length cat1.
            pair_match_obj cosmo z_col ra_col dec_col r_kpc include cat2 (cat1 ! i)
              = Inr (num_pair ! i, index_pair ! i))"
  using assms
proof (induction cat1 arbitrary: num_pair index_pair)
  case Nil
  then show ?case by simp
next
  case (Cons obj1 cat1)
  from Cons.prems obtain n idx ns idxs where
    o: "pair_match_obj cosmo z_col ra_col dec_col r_kpc include cat2 obj1 = Inr (n, idx)" and
    l: "pair_match_loop cosmo z_col ra_col dec_col r_kpc include cat2 cat1 = Inr (ns, idxs)" and
    e: "num_pair = n # ns" "index_pair = idx # idxs"
    by (auto simp: bnd_Inr_iff)
  from Cons.IH [OF l] o e show ?case
    by (auto simp: nth_Cons split: nat.splits)
qed

lemma pair_match_obj_result:
  assumes "pair_match_obj cosmo z_col ra_col dec_col r_kpc include cat2 obj1 = Inr (n, idx)"
  shows "\<exists>sep. sep_kpc cosmo z_col ra_col dec_col cat2 obj1 = Inr sep \<and>
               length sep = length cat2 \<and>
               idx = filter (\<lambda>j. sep ! j < r_kpc) [0..<length cat2] \<and>
               n = int (length idx) - (if include then 1 else 0)"
proof -
  from assms obtain sep where
    s: "sep_kpc cosmo z_col ra_col dec_col cat2 obj1 = Inr sep" and
    n: "n = (if include then np_sum_less sep r_kpc - 1 else np_sum_less sep r_kpc)" and
    i: "idx = np_where_less sep r_kpc"
    by (auto simp: pair_match_obj_def bnd_Inr_iff)
  have len: "length sep = length cat2" using s by (rule sep_kpc_length)
  show ?thesis using s n i len
    by (auto simp: np_sum_less_where np_where_less_def)
qed

lemma table_pair_match_obj:
  assumes "table_pair_match_physical cat1 cat2 z_col r_kpc cosmo ra_col dec_col include
             = Inr (num_pair, index_pair)"
    and "i < length cat1"
  shows "pair_match_obj cosmo z_col ra_col dec_col r_kpc include cat2 (cat1 ! i)
           = Inr (num_pair ! i, index_pair ! i)"
proof -
  have "pair_match_loop cosmo z_col ra_col dec_col r_kpc include cat2 cat1
          = Inr (num_pair, index_pair)"
    using assms(1) by (simp add: table_pair_match_physical_def)
  from pair_match_loop_nth [OF this] assms(2) show ?thesis by simp
qed

text \<open>The distances of the scenario, in kpc, for any cosmology.\<close>

lemma sep_kpc_from_a:
  "sep_kpc cosmo ''z'' ''ra'' ''dec'' [obj_a, obj_b] obj_a
     = Inr [0, 10 * kpc_scale_erin cosmo (1 / 10)]"
  by (simp add: sep_kpc_def field_def obj_a_def obj_b_def bnd_Inr angular_distance_from_a)

lemma sep_kpc_from_b:
  "sep_kpc cosmo ''z'' ''ra'' ''dec'' [obj_a, obj_b] obj_b
     = Inr [10 * kpc_scale_erin cosmo (1 / 10), 0]"
  by (simp add: sep_kpc_def field_def obj_a_def obj_b_def bnd_Inr angular_distance_from_b)

lemma sep_kpc_self:
  "sep_kpc cosmo ''z'' ''ra'' ''dec'' [obj_a] obj_a = Inr [0]"
  by (simp add: sep_kpc_def field_def obj_a_def bnd_Inr angular_distance_self)

text \<open>
  The claim C1 has the flag the wrong way round: with one object matched against itself
  the count is 1 for \<^verbatim>\<open>include=False\<close>, the number of positions within the radius, and 0
  for \<^verbatim>\<open>include=True\<close>. The index array holds the self-match in both calls.
\<close>

theorem pair_count_include_counterexample:
  "table_pair_match_physical [obj_a] [obj_a] ''z'' 1000 example_cosmo ''ra'' ''dec'' False
     = Inr ([1], [[0]]) \<and>
   table_pair_match_physical [obj_a] [obj_a] ''z'' 1000 example_cosmo ''ra'' ''dec'' True
     = Inr ([0], [[0]])"
  by (simp add: table_pair_match_physical_def pair_match_obj_def sep_kpc_self
      bnd_Inr np_sum_less_def np_where_less_def)

text \<open>
  C1, as the code has it. For every object \<open>i\<close> of the first catalog the index array is
  the ascending list of all positions of the second catalog whose projected distance
  is below \<^verbatim>\<open>r_kpc\<close>, a position at distance zero among them, and the count is the
  length of that list, less one exactly when \<^verbatim>\<open>include\<close> is true.
\<close>

theorem pair_count_adjusted_when_include:
  assumes "table_pair_match_physical cat1 cat2 z_col r_kpc cosmo ra_col dec_col include
             = Inr (num_pair, index_pair)"
    and "i < length cat1"
  shows "\<exists>sep. sep_kpc cosmo z_col ra_col dec_col cat2 (cat1 ! i) = Inr sep \<and>
               length sep = length cat2 \<and>
               index_pair ! i = filter (\<lambda>j. sep ! j < r_kpc) [0..<length cat2] \<and>
               num_pair ! i = int (length (index_pair ! i)) - (if include then 1 else 0)"
  using table_pair_match_obj [OF assms] by (rule pair_match_obj_result)

theorem pair_count_adjusted_when_include_witness:
  "table_pair_match_physical [obj_a, obj_b] [obj_a, obj_b] ''z'' 1000 example_cosmo ''ra'' ''dec'' True
     = Inr ([1, 1], [[0, 1], [0, 1]]) \<and>
   (\<exists>sep. sep_kpc example_cosmo ''z'' ''ra'' ''dec'' [obj_a, obj_b] ([obj_a, obj_b] ! 1) = Inr sep \<and>
          length sep = length [obj_a, obj_b] \<and>
          [[0, 1], [0, 1]] ! 1 = filter (\<lambda>j. sep ! j < 1000) [0..<length [obj_a, obj_b]] \<and>
          [1, 1] ! 1 = int (length ([[0, 1], [0, 1 :: nat]] ! 1)) - (if True then 1 else 0))"
proof -
  have r: "table_pair_match_physical [obj_a, obj_b] [obj_a, obj_b] ''z'' 1000 example_cosmo
             ''ra'' ''dec'' True = Inr ([1, 1], [[0, 1], [0, 1]])"
    by (simp add: table_pair_match_physical_def pair_match_obj_def sep_kpc_from_a sep_kpc_from_b
        bnd_Inr np_sum_less_def np_where_less_def kpc_scale_erin_def example_cosmo_def)
  have i: "1 < length [obj_a, obj_b]" by simp
  from pair_count_adjusted_when_include [OF r i] r show ?thesis by simp
qed

text \<open>
  C2. The first catalog is the single object at \<open>(10, 0)\<close> with redshift \<open>0.1\<close>, the second
  one holds that object and one 10 arcsec away. When \<^verbatim>\<open>r_kpc\<close> exceeds both projected
  distances (0 and \<open>10 \<times>\<close> the scale), the count is 2 for \<^verbatim>\<open>include=False\<close> and 1 for
  \<^verbatim>\<open>include=True\<close>; with the second catalog also passed as the first one and
  \<^verbatim>\<open>include=True\<close>, each of its two objects has count 1.
\<close>

theorem pair_count_scenario:
  assumes "0 < r_kpc" and "10 * kpc_scale_erin cosmo (1 / 10) < r_kpc"
  shows "table_pair_match_physical [obj_a] [obj_a, obj_b] ''z'' r_kpc cosmo ''ra'' ''dec'' False
           = Inr ([2], [[0, 1]]) \<and>
         table_pair_match_physical [obj_a] [obj_a, obj_b] ''z'' r_kpc cosmo ''ra'' ''dec'' True
           = Inr ([1], [[0, 1]]) \<and>
         table_pair_match_physical [obj_a, obj_b] [obj_a, obj_b] ''z'' r_kpc cosmo ''ra'' ''dec'' True
           = Inr ([1, 1], [[0, 1], [0, 1]])"
  using assms
  by (simp add: table_pair_match_physical_def pair_match_obj_def sep_kpc_from_a sep_kpc_from_b
      bnd_Inr np_sum_less_def np_where_less_def)

theorem pair_count_scenario_witness:
  "(0::real) < 1000 \<and> 10 * kpc_scale_erin example_cosmo (1 / 10) < 1000 \<and>
   table_pair_match_physical [obj_a] [obj_a, obj_b] ''z'' 1000 example_cosmo ''ra'' ''dec'' False
     = Inr ([2], [[0, 1]]) \<and>
   table_pair_match_physical [obj_a] [obj_a, obj_b] ''z'' 1000 example_cosmo ''ra'' ''dec'' True
     = Inr ([1], [[0, 1]]) \<and>
   table_pair_match_physical [obj_a, obj_b] [obj_a, obj_b] ''z'' 1000 example_cosmo ''ra'' ''dec'' True
     = Inr ([1, 1], [[0, 1], [0, 1]])"
proof -
  have p: "(0::real) < 1000" by simp
  have s: "10 * kpc_scale_erin example_cosmo (1 / 10) < 1000"
    by (simp add: kpc_scale_erin_def example_cosmo_def)
  from pair_count_scenario [OF p s] p s show ?thesis by simp
qed

text \<open>
  C9. With \<^verbatim>\<open>include=True\<close>, an object of the first catalog that has no position of the
  second catalog within \<^verbatim>\<open>r_kpc\<close> gets the count \<open>-1\<close>.
\<close>

theorem pair_count_negative:
  assumes "table_pair_match_physical cat1 cat2 z_col r_kpc cosmo ra_col dec_col True
             = Inr (num_pair, index_pair)"
    and "i < length cat1"
    and "sep_kpc cosmo z_col ra_col dec_col cat2 (cat1 ! i) = Inr sep"
    and "\<forall>d \<in> set sep. \<not> d < r_kpc"
  shows "num_pair ! i = - 1"
proof -
  have "pair_match_obj cosmo z_col ra_col dec_col r_kpc True cat2 (cat1 ! i)
          = Inr (num_pair ! i, index_pair ! i)"
    using assms(1,2) by (rule table_pair_match_obj)
  then have "num_pair ! i = np_sum_less sep r_kpc - 1"
    using assms(3) by (simp add: pair_match_obj_def bnd_Inr)
  moreover have "filter (\<lambda>d. d < r_kpc) sep = []"
    using assms(4) by (simp add: filter_empty_conv)
  ultimately show ?thesis by (simp add: np_sum_less_def)
qed

theorem pair_count_negative_witness:
  "table_pair_match_physical [obj_a] [obj_a] ''z'' 0 example_cosmo ''ra'' ''dec'' True
     = Inr ([- 1], [[]]) \<and>
   (0::nat) < length [obj_a] \<and>
   sep_kpc example_cosmo ''z'' ''ra'' ''dec'' [obj_a] ([obj_a] ! 0) = Inr [0] \<and>
   \<not> (0::real) < 0 \<and> [- 1 :: int] ! 0 = - 1"
proof -
  have r: "table_pair_match_physical [obj_a] [obj_a] ''z'' 0 example_cosmo ''ra'' ''dec'' True
             = Inr ([- 1], [[]])"
    by (simp add: table_pair_match_physical_def pair_match_obj_def sep_kpc_self
        bnd_Inr np_sum_less_def np_where_less_def)
  have i: "(0::nat) < length [obj_a]" by simp
  have s: "sep_kpc example_cosmo ''z'' ''ra'' ''dec'' [obj_a] ([obj_a] ! 0) = Inr [0]"
    by (simp add: sep_kpc_self)
  have a: "\<forall>d \<in> set [0::real]. \<not> d < 0" by simp
  from pair_count_negative [OF r i s a] r i s a show ?thesis by simp
qed

section \<open>Angle normalisation: what the code does\<close>

lemma py_mod_range:
  assumes "0 < m"
  shows "\<exists>r. py_mod x m = Inr r \<and> 0 \<le> r \<and> r < m"
proof -
  let ?q = "of_int \<lfloor>x / m\<rfloor> :: real"
  have e: "m * (x / m) = x" using assms by simp
  have "m * ?q \<le> m * (x / m)"
    using assms by (intro mult_left_mono) simp_all
  then have lo: "m * ?q \<le> x" using e by simp
  have "x / m < ?q + 1" by linarith
  then have "m * (x / m) < m * (?q + 1)"
    using assms by (intro mult_strict_left_mono) simp_all
  then have hi: "x - m * ?q < m" using e by (simp add: algebra_simps)
  show ?thesis using assms lo hi by (simp add: py_mod_def)
qed

text \<open>Without \<^verbatim>\<open>b\<close>, an empty range is rejected before anything is computed.\<close>

lemma normalize_angle_invalid_range:
  "upper \<le> lower \<Longrightarrow> normalize_angle num lower upper False = Inl ValueError"
  by (simp add: normalize_angle_def)

text \<open>
  For a range that contains 0 the period \<^verbatim>\<open>abs(lower) + abs(upper)\<close> is the length of
  the range, and the result lies in the range.
\<close>

lemma normalize_angle_range:
  assumes "lower \<le> 0" and "0 \<le> upper" and "lower < upper"
  shows "\<exists>r. normalize_angle num lower upper False = Inr r \<and> lower \<le> r \<and> r < upper"
proof -
  let ?m = "\<bar>lower\<bar> + \<bar>upper\<bar>"
  have m: "?m = upper - lower" "0 < ?m" using assms by simp_all
  obtain r1 where r1: "py_mod \<bar>num + upper\<bar> ?m = Inr r1" "0 \<le> r1" "r1 < ?m"
    using py_mod_range [OF m(2)] by blast
  show ?thesis
  proof (cases "num > upper \<or> num = lower")
    case True
    then show ?thesis using assms r1 m
      by (auto simp: normalize_angle_def bnd_Inr)
  next
    case False
    obtain r2 where r2: "py_mod \<bar>num - lower\<bar> ?m = Inr r2" "0 \<le> r2" "r2 < ?m"
      using py_mod_range [OF m(2)] by blast
    show ?thesis using False assms r2 m
      by (auto simp: normalize_angle_def bnd_Inr)
  qed
qed

text \<open>
  C6 says that for every \<open>lower < upper\<close> the result without \<^verbatim>\<open>b\<close> lies in
  \<open>[lower, upper)\<close> and that a value already there is returned unchanged. The code
  returns 25 for the range \<open>[10, 20)\<close>, and turns \<open>-10\<close>, the lower end of \<open>[-10, 20)\<close>,
  into 0.
\<close>

theorem normalize_angle_out_of_range:
  "normalize_angle 25 10 20 False = Inr 25 \<and> normalize_angle (- 10) (- 10) 20 False = Inr 0"
  by (simp add: normalize_angle_def bnd_def py_mod_def)

text \<open>
  C7 says that \<open>lower \<ge> upper\<close> raises in both modes. With \<^verbatim>\<open>b=True\<close> the code makes no
  such test: for the range from 10 down to 5 it returns \<open>-15\<close>.
\<close>

theorem normalize_angle_bounce_unchecked:
  "normalize_angle 0 10 5 True = Inr (- 15)"
  by (simp add: normalize_angle_def bnd_def py_div_def)

section \<open>Random state construction: the accepted seeds\<close>

text \<open>
  The claim C8 lists a float that is not an integer among the rejected seeds. The code
  converts it with \<^verbatim>\<open>int\<close>: the seed \<open>2.5\<close> gives the generator seeded with 2.
\<close>

theorem check_random_state_float_counterexample:
  "check_random_state example_RandomState 0 (SFloat (Finite (5 / 2))) = Inr 2"
  by (simp add: bnd_def py_int_def)

text \<open>
  C8, as the code has it. \<^verbatim>\<open>None\<close> and the module \<^verbatim>\<open>numpy.random\<close> give the global
  generator and a generator state is returned as it is; an integer, a finite float
  truncated towards zero, and a list whose first element is an integer are handed to
  numpy's constructor; a string, an object of another type and a non-empty list whose
  first element is not an integer raise \<^verbatim>\<open>ValueError\<close>.
\<close>

theorem check_random_state_forms:
  "check_random_state RandomState mtrand_rand SNone = Inr mtrand_rand \<and>
   check_random_state RandomState mtrand_rand SNumpyRandom = Inr mtrand_rand \<and>
   check_random_state RandomState mtrand_rand (SInt n) = RandomState (IntSeed n) \<and>
   check_random_state RandomState mtrand_rand (SFloat (Finite x))
     = RandomState (IntSeed (if x \<ge> 0 then \<lfloor>x\<rfloor> else \<lceil>x\<rceil>)) \<and>
   check_random_state RandomState mtrand_rand (SRandomState g) = Inr g \<and>
   check_random_state RandomState mtrand_rand (SList (s # ss))
     = (if is_integral s then RandomState (ListSeed (s # ss)) else Inl ValueError) \<and>
   check_random_state RandomState mtrand_rand (SStr str) = Inl ValueError \<and>
   check_random_state RandomState mtrand_rand SObject = Inl ValueError"
  by (simp add: bnd_def py_int_def py_index_def)

section \<open>Weighted median: weights that are not positive\<close>

text \<open>
  The numpy version returns \<^verbatim>\<open>None\<close> whenever no weight is strictly positive: it tests
  for a positive weight before anything else.
\<close>

lemma numpy_weighted_median_none:
  assumes "\<not> list_ex (\<lambda>j. j > 0) ws"
  shows "numpy_weighted_median np_median data (Some ws) = Inr None"
  using assms by (simp add: numpy_weighted_median_def)

lemma numpy_weighted_median_example:
  "numpy_weighted_median example_median [5, 7] (Some [- 1, - 2]) = Inr None"
  by (simp add: numpy_weighted_median_def)

text \<open>
  \<^verbatim>\<open>weighted_median\<close> agrees with it when, besides, no weight exceeds half the sum of the
  weights.
\<close>

lemma weighted_median_none:
  assumes "\<forall>j \<in> set ws. j \<le> 0" and "\<forall>j \<in> set ws. j \<le> sum_list ws / 2"
  shows "weighted_median np_median data (Some ws) = Inr None"
proof -
  have a: "list_ex (\<lambda>j. j > 0.5 * sum_list ws) ws = False"
    using assms(2) by (auto simp: list_ex_iff)
  have b: "list_ex (\<lambda>j. j > 0) ws = False"
    using assms(1) by (auto simp: list_ex_iff)
  show ?thesis unfolding weighted_median_def Let_def option.case a b by simp
qed

text \<open>
  C10 says that \<^verbatim>\<open>weighted_median\<close> returns \<^verbatim>\<open>None\<close> when no weight is strictly positive.
  The code tests for a weight above the midpoint first. For the data 5 and 7 with the
  weights \<open>-1\<close> and \<open>-2\<close> the midpoint is \<open>-1.5\<close>, the weight \<open>-1\<close> lies above it, and the
  call returns 5.
\<close>

theorem weighted_median_dominant_negative:
  "weighted_median example_median [5, 7] (Some [- 1, - 2]) = Inr (Some 5)"
  by (simp add: weighted_median_def bnd_def py_max_def py_index_def)

section \<open>The image cleaner\<close>

text \<open>The copy is a new object; every object that existed keeps its contents.\<close>

lemma replace_with_noise_result:
  assumes "replace_with_noise h img seg noise = Inr (x, h')"
  shows "x = fresh h \<and> fresh h' = Suc (fresh h) \<and>
         (\<forall>y. y \<noteq> fresh h \<longrightarrow> cells h' y = cells h y) \<and>
         shape (cells h' x) = shape (cells h img) \<and>
         (\<forall>r c. elems (cells h' x) r c =
                  (if elems seg r c > 0 then elems noise r c else elems (cells h img) r c))"
  using assms
  by (auto simp: replace_with_noise_def deepcopy_def store_def masked_assign_def bnd_Inr_iff
      arr_test_def split: if_splits)

lemma replace_with_noise_returns:
  assumes "shape seg = shape (cells h img)" and "shape noise = shape (cells h img)"
  shows "\<exists>x h'. replace_with_noise h img seg noise = Inr (x, h')"
  using assms
  by (simp add: replace_with_noise_def deepcopy_def masked_assign_def bnd_Inr arr_test_def)

lemma replace_with_noise_contents:
  assumes "replace_with_noise h img seg noise = Inr (x, h')"
  shows "cells h' x = noise_replaced (cells h img) seg noise"
  using assms
  by (auto simp: replace_with_noise_def deepcopy_def store_def masked_assign_def bnd_Inr_iff
      arr_test_def noise_replaced_def split: if_splits cong: if_cong)

lemma image_clean_core_result:
  assumes "image_clean_core L h img sig bad bkg_param_1 det_param_1 bkg_param_2 det_param_2
             bkg_param_3 det_param_3 = Inr ((img_clean, ev), h')"
    and "img < fresh h"
  shows "\<exists>seg_comb. combine_seg (ev_seg_1 ev) (ev_seg_2 ev) (ev_seg_3 ev) = Inr seg_comb \<and>
           img_clean \<noteq> img \<and> cells h' img = cells h img \<and>
           shape (cells h' img_clean) = shape (cells h img) \<and>
           (\<forall>r c. elems (cells h' img_clean) r c =
                    (if elems seg_comb r c > 0 then elems (ev_noise ev) r c
                     else elems (cells h img) r c))"
proof -
  from assms(1) obtain seg_comb x2 h2 noise where
    c: "combine_seg (ev_seg_1 ev) (ev_seg_2 ev) (ev_seg_3 ev) = Inr seg_comb" and
    n: "ev_noise ev = noise" and
    r1: "replace_with_noise h img (ev_seg_2 ev) noise = Inr (x2, h2)" and
    r2: "replace_with_noise h2 img seg_comb noise = Inr (img_clean, h')"
    unfolding image_clean_core_def Let_def
    by (auto simp: bnd_Inr_iff case_prod_beta)
  note f1 = replace_with_noise_result [OF r1]
  note f2 = replace_with_noise_result [OF r2]
  have a: "cells h2 img = cells h img" using f1 assms(2) by simp
  have b: "img < fresh h2" using f1 assms(2) by simp
  have "img_clean \<noteq> img" using f2 b by auto
  moreover have "cells h' img = cells h img" using f2 b a by auto
  moreover have "shape (cells h' img_clean) = shape (cells h img)" using f2 a by auto
  moreover have "\<forall>r c. elems (cells h' img_clean) r c =
                    (if elems seg_comb r c > 0 then elems (ev_noise ev) r c
                     else elems (cells h img) r c)"
    using f2 a n by auto
  ultimately show ?thesis using c by blast
qed

lemma noise_args_returns: "\<exists>loc scale. noise_args sig bkg_3 = Inr (loc, scale)"
  by (cases sig) (simp_all add: noise_args_def masked_fill_def arr_test_def bnd_Inr Let_def)

text \<open>With a sigma map every entry of the scale array is positive.\<close>

lemma noise_args_sigma_clamped:
  assumes "noise_args (Some s) bkg_3 = Inr (loc, scale)"
  shows "\<exists>a. scale = Array a \<and> (\<forall>r c. 0 < elems a r c)"
  using assms
  by (auto simp: noise_args_def masked_fill_def arr_test_def bnd_Inr Let_def not_le)

lemma combine_seg_no_central:
  assumes "shape seg_2 = shape seg_3"
    and "arr_get seg_1 (fst (shape seg_1) div 2) (snd (shape seg_1) div 2) = Inr 0"
  shows "seg_index_cen_obj seg_1 = Inr None"
    and "combine_seg seg_1 seg_2 seg_3
           = Inr \<lparr>shape = shape seg_2, elems = (\<lambda>r c. elems seg_2 r c + elems seg_3 r c)\<rparr>"
  using assms by (simp_all add: combine_seg_def seg_index_cen_obj_def arr_binop_def bnd_Inr)

text \<open>Pass 1 returns whenever the background has the shape of the image.\<close>

lemma pass_1_returns:
  assumes "shape (bkg_back (sep_Background L img bad (bw bkg_param_1) (bh bkg_param_1)
                     (fw bkg_param_1) (fh bkg_param_1))) = shape img"
  shows "\<exists>bkg_1 obj_1 seg_1.
           pass_1 L img sig bad bkg_param_1 det_param_1 = Inr (bkg_1, obj_1, seg_1)"
  using assms by (simp add: pass_1_def Let_def arr_binop_def bnd_Inr split: prod.splits)

lemma image_clean_up_core:
  assumes "image_clean_up L dic h img sig bad bkg_param_1 det_param_1 bkg_param_2 det_param_2
             bkg_param_3 det_param_3 visual diagnose = Inr (res, h')"
  shows "\<exists>ev. image_clean_core L h img sig bad bkg_param_1 det_param_1 bkg_param_2 det_param_2
             bkg_param_3 det_param_3 = Inr ((img_clean_of res, ev), h')"
  using assms by (auto simp: image_clean_up_def bnd_Inr_iff)

lemma example_lib_shapes: "lib_shapes example_libs"
  by (simp add: lib_shapes_def example_libs_def)

lemmas example_defs = example_libs_def example_heap_def example_img_def
  example_img_no_central_def example_bkg_zero_rms_def
  bkg_param_1_default_def det_param_1_default_def bkg_param_2_default_def
  det_param_2_default_def bkg_param_3_default_def det_param_3_default_def

lemmas clean_defs = image_clean_up_def image_clean_core_def pass_1_def pass_2_def
  noise_args_def replace_with_noise_def combine_seg_def seg_index_cen_obj_def arr_get_def
  arr_binop_def arr_test_def masked_assign_def masked_fill_def deepcopy_def store_def
  Let_def bnd_Inr

text \<open>
  C3. When \<^verbatim>\<open>image_clean_up\<close> returns, for an image that is an object of the store:
  \<^verbatim>\<open>img_clean\<close> is another object than \<^verbatim>\<open>img\<close>, the contents of \<^verbatim>\<open>img\<close> are what they were,
  the two have the same shape, and each pixel of \<^verbatim>\<open>img_clean\<close> is the noise value at that
  pixel if the combined segmentation map, with the footprint of the central object
  set to 0, is positive there, and the pixel of \<^verbatim>\<open>img\<close> otherwise.
\<close>

theorem image_clean_up_replaces_flagged:
  assumes "image_clean_up L diagnose_image_clean h img sig bad bkg_param_1 det_param_1
             bkg_param_2 det_param_2 bkg_param_3 det_param_3 visual diagnose = Inr (res, h')"
    and "img < fresh h"
  shows "\<exists>ev seg_comb.
           image_clean_core L h img sig bad bkg_param_1 det_param_1 bkg_param_2 det_param_2
             bkg_param_3 det_param_3 = Inr ((img_clean_of res, ev), h') \<and>
           combine_seg (ev_seg_1 ev) (ev_seg_2 ev) (ev_seg_3 ev) = Inr seg_comb \<and>
           img_clean_of res \<noteq> img \<and> cells h' img = cells h img \<and>
           shape (cells h' (img_clean_of res)) = shape (cells h img) \<and>
           (\<forall>r c. elems (cells h' (img_clean_of res)) r c =
                    (if elems seg_comb r c > 0 then elems (ev_noise ev) r c
                     else elems (cells h img) r c))"
proof -
  from image_clean_up_core [OF assms(1)] obtain ev where
    c: "image_clean_core L h img sig bad bkg_param_1 det_param_1 bkg_param_2 det_param_2
          bkg_param_3 det_param_3 = Inr ((img_clean_of res, ev), h')"
    by blast
  from image_clean_core_result [OF c assms(2)] c show ?thesis by blast
qed

theorem image_clean_up_replaces_flagged_witness:
  "\<exists>res h'.
     image_clean_up example_libs example_figure (example_heap example_img) 0 None NoMask
       bkg_param_1_default det_param_1_default bkg_param_2_default det_param_2_default
       bkg_param_3_default det_param_3_default False False = Inr (res, h') \<and>
     (0::nat) < fresh (example_heap example_img) \<and>
     elems (cells h' (img_clean_of res)) 0 2 = 0 \<and>
     elems (cells h' (img_clean_of res)) 1 1 = 300 \<and>
     (\<exists>ev seg_comb.
        image_clean_core example_libs (example_heap example_img) 0 None NoMask
          bkg_param_1_default det_param_1_default bkg_param_2_default det_param_2_default
          bkg_param_3_default det_param_3_default = Inr ((img_clean_of res, ev), h') \<and>
        combine_seg (ev_seg_1 ev) (ev_seg_2 ev) (ev_seg_3 ev) = Inr seg_comb \<and>
        img_clean_of res \<noteq> 0 \<and> cells h' 0 = cells (example_heap example_img) 0 \<and>
        shape (cells h' (img_clean_of res)) = shape (cells (example_heap example_img) 0) \<and>
        (\<forall>r c. elems (cells h' (img_clean_of res)) r c =
                 (if elems seg_comb r c > 0 then elems (ev_noise ev) r c
                  else elems (cells (example_heap example_img) 0) r c)))"
proof -
  have "\<exists>res h'.
     image_clean_up example_libs example_figure (example_heap example_img) 0 None NoMask
       bkg_param_1_default det_param_1_default bkg_param_2_default det_param_2_default
       bkg_param_3_default det_param_3_default False False = Inr (res, h') \<and>
     elems (cells h' (img_clean_of res)) 0 2 = 0 \<and>
     elems (cells h' (img_clean_of res)) 1 1 = 300"
    by (simp add: clean_defs example_defs)
  then obtain res h' where
    r: "image_clean_up example_libs example_figure (example_heap example_img) 0 None NoMask
          bkg_param_1_default det_param_1_default bkg_param_2_default det_param_2_default
          bkg_param_3_default det_param_3_default False False = Inr (res, h')" and
    p: "elems (cells h' (img_clean_of res)) 0 2 = 0"
       "elems (cells h' (img_clean_of res)) 1 1 = 300"
    by blast
  have l: "(0::nat) < fresh (example_heap example_img)" by (simp add: example_heap_def)
  from image_clean_up_replaces_flagged [OF r l] r l p show ?thesis by blast
qed

lemma image_clean_core_noise:
  assumes "image_clean_core L h img sig bad bkg_param_1 det_param_1 bkg_param_2 det_param_2
             bkg_param_3 det_param_3 = Inr ((img_clean, ev), h')"
  shows "ev_bkg_3 ev = sep_Background L (cells h img) (IntMask (ev_seg_2 ev)) (bw bkg_param_3)
                         (bh bkg_param_3) (fw bkg_param_3) (fh bkg_param_3) \<and>
         (\<exists>loc scale. noise_args (map_option (cells h) sig) (ev_bkg_3 ev) = Inr (loc, scale) \<and>
            ev_noise ev = np_random_normal L loc scale (shape (cells h img)))"
  using assms
  unfolding image_clean_core_def Let_def
  by (auto simp: bnd_Inr_iff case_prod_beta)

text \<open>
  The claim C4 speaks of a clamp in both parameterizations. Without a sigma map the code
  has none: a global RMS of 0 is handed to the sampler as the scale.
\<close>

theorem noise_scale_global_counterexample:
  "noise_args None example_bkg_zero_rms = Inr (Scalar 100, Scalar 0)"
  by (simp add: noise_args_def example_bkg_zero_rms_def)

text \<open>
  C4, as the code has it. Without a sigma map the arguments of the sampler are the
  global sky level and the global RMS of the background, unchanged. With a sigma map
  they are the sky map and the RMS map in which every entry that is not positive has
  been replaced by \<open>10\<^sup>-\<^sup>8\<close>, so that the scale is positive at every pixel.
\<close>

theorem noise_scale_by_parameterization:
  "noise_args None bkg_3 = Inr (Scalar (globalback bkg_3), Scalar (globalrms bkg_3)) \<and>
   (\<exists>sky_sig. noise_args (Some s) bkg_3 = Inr (Array (bkg_back bkg_3), Array sky_sig) \<and>
      shape sky_sig = shape (bkg_rms bkg_3) \<and>
      (\<forall>r c. elems sky_sig r c =
               (if elems (bkg_rms bkg_3) r c \<le> 0 then 1 / 10 ^ 8 else elems (bkg_rms bkg_3) r c)) \<and>
      (\<forall>r c. 0 < elems sky_sig r c))"
  by (simp add: noise_args_def masked_fill_def arr_test_def bnd_Inr Let_def not_le)

text \<open>
  C5. Let the libraries keep shapes, let the image and the sigma map be objects of the
  store, and let the segmentation map of pass 1 have label 0 at row \<open>height div 2\<close> and
  column \<open>width div 2\<close>. Name \<open>seg_2\<close> the map that \<^verbatim>\<open>sep.extract\<close> returns for the image,
  \<open>noise\<close> the sample that \<^verbatim>\<open>np.random.normal\<close> returns for the arguments of the call, and
  \<open>seg_3\<close> the map that \<^verbatim>\<open>sep.extract\<close> returns for the image with the pixels of \<open>seg_2\<close>
  replaced by noise. Then \<^verbatim>\<open>image_clean_up\<close> returns, the lookup of the central object
  gives \<^verbatim>\<open>None\<close>, the input image is unchanged, and each pixel of the cleaned image is
  the noise value wherever \<open>seg_2 + seg_3\<close> is positive, the centre included, and the
  pixel of the input image elsewhere.
\<close>

theorem image_clean_up_no_central_object:
  assumes "lib_shapes L"
    and "img < fresh h"
    and "case sig of None \<Rightarrow> True | Some s \<Rightarrow> s < fresh h"
    and "pass_1 L (cells h img) (map_option (cells h) sig) bad bkg_param_1 det_param_1
           = Inr (bkg_1, obj_1, seg_1)"
    and "arr_get seg_1 (fst (shape seg_1) div 2) (snd (shape seg_1) div 2) = Inr 0"
    and "pass_2 L (cells h img) (map_option (cells h) sig) bkg_param_2 det_param_2
           = (bkg_2, obj_2, seg_2)"
    and "noise_args (map_option (cells h) sig)
           (sep_Background L (cells h img) (IntMask seg_2) (bw bkg_param_3) (bh bkg_param_3)
              (fw bkg_param_3) (fh bkg_param_3)) = Inr (loc, scale)"
    and "noise = np_random_normal L loc scale (shape (cells h img))"
    and "sep_extract L (noise_replaced (cells h img) seg_2 noise) (thr det_param_3)
           (map_option (cells h) sig) (minarea det_param_3) (deb_n det_param_3)
           (deb_c det_param_3) = (obj_3, seg_3)"
  shows "\<exists>res h'.
           image_clean_up L diagnose_image_clean h img sig bad bkg_param_1 det_param_1
             bkg_param_2 det_param_2 bkg_param_3 det_param_3 visual diagnose = Inr (res, h') \<and>
           seg_index_cen_obj seg_1 = Inr None \<and>
           img_clean_of res \<noteq> img \<and> cells h' img = cells h img \<and>
           shape (cells h' (img_clean_of res)) = shape (cells h img) \<and>
           (\<forall>r c. elems (cells h' (img_clean_of res)) r c =
                    (if elems seg_2 r c + elems seg_3 r c > 0
                     then elems noise r c else elems (cells h img) r c))"
proof -
  have ext: "\<And>d t e a n c. shape (snd (sep_extract L d t e a n c)) = shape d"
    and nrm: "\<And>l s sz. shape (np_random_normal L l s sz) = sz"
    using assms(1) unfolding lib_shapes_def by blast+
  have "seg_2 = snd (sep_extract L (cells h img) (thr det_param_2) (map_option (cells h) sig)
                       (minarea det_param_2) (deb_n det_param_2) (deb_c det_param_2))"
    using assms(6) by (auto simp: pass_2_def Let_def split: prod.splits)
  then have s2: "shape seg_2 = shape (cells h img)" by (simp add: ext)
  have sn: "shape noise = shape (cells h img)" using assms(8) by (simp add: nrm)
  obtain x2 h2 where r1: "replace_with_noise h img seg_2 noise = Inr (x2, h2)"
    using replace_with_noise_returns [OF s2 sn] by blast
  note f1 = replace_with_noise_result [OF r1]
  have a: "cells h2 img = cells h img" using f1 assms(2) by auto
  have b: "img < fresh h2" using f1 assms(2) by auto
  have sg: "map_option (cells h2) sig = map_option (cells h) sig"
    using f1 assms(3) by (cases sig) auto
  have e3: "sep_extract L (cells h2 x2) (thr det_param_3) (map_option (cells h2) sig)
              (minarea det_param_3) (deb_n det_param_3) (deb_c det_param_3) = (obj_3, seg_3)"
    using assms(9) by (simp add: replace_with_noise_contents [OF r1] sg)
  have "shape seg_3 = shape (noise_replaced (cells h img) seg_2 noise)"
    using ext [of "noise_replaced (cells h img) seg_2 noise" "thr det_param_3"
        "map_option (cells h) sig" "minarea det_param_3" "deb_n det_param_3"
        "deb_c det_param_3"] assms(9) by simp
  then have s3: "shape seg_3 = shape (cells h img)" by (simp add: noise_replaced_def)
  let ?comb = "\<lparr>shape = shape seg_2, elems = (\<lambda>r c. elems seg_2 r c + elems seg_3 r c)\<rparr>"
  have s23: "shape seg_2 = shape seg_3" using s2 s3 by simp
  have cen: "seg_index_cen_obj seg_1 = Inr None"
    and cs: "combine_seg seg_1 seg_2 seg_3 = Inr ?comb"
    using combine_seg_no_central [OF s23 assms(5)] by simp_all
  have sc: "shape ?comb = shape (cells h2 img)" using s2 a by simp
  have sn2: "shape noise = shape (cells h2 img)" using sn a by simp
  obtain x4 h4 where r2: "replace_with_noise h2 img ?comb noise = Inr (x4, h4)"
    using replace_with_noise_returns [OF sc sn2] by blast
  have core: "\<exists>ev. image_clean_core L h img sig bad bkg_param_1 det_param_1 bkg_param_2
                det_param_2 bkg_param_3 det_param_3 = Inr ((x4, ev), h4)"
    unfolding image_clean_core_def Let_def
    using r1 r2 by (simp add: assms(4,6,7) assms(8) [symmetric] e3 cs bnd_Inr)
  then obtain res where
    up: "image_clean_up L diagnose_image_clean h img sig bad bkg_param_1 det_param_1
           bkg_param_2 det_param_2 bkg_param_3 det_param_3 visual diagnose = Inr (res, h4)"
    and ro: "img_clean_of res = x4"
    by (auto simp: image_clean_up_def bnd_Inr)
  note f2 = replace_with_noise_result [OF r2]
  have "x4 \<noteq> img" using f2 b by auto
  moreover have "cells h4 img = cells h img" using f2 b a by auto
  moreover have "shape (cells h4 x4) = shape (cells h img)" using f2 a by auto
  moreover have "\<forall>r c. elems (cells h4 x4) r c =
                    (if elems seg_2 r c + elems seg_3 r c > 0
                     then elems noise r c else elems (cells h img) r c)"
    using f2 a by auto
  ultimately show ?thesis using up ro cen by auto
qed

theorem image_clean_up_no_central_object_witness:
  "lib_shapes example_libs \<and> (0::nat) < fresh (example_heap example_img_no_central) \<and>
   (\<exists>bkg_1 obj_1 seg_1 bkg_2 obj_2 seg_2 obj_3 seg_3 res h'.
      pass_1 example_libs example_img_no_central None NoMask bkg_param_1_default
        det_param_1_default = Inr (bkg_1, obj_1, seg_1) \<and>
      arr_get seg_1 1 1 = Inr 0 \<and>
      pass_2 example_libs example_img_no_central None bkg_param_2_default det_param_2_default
        = (bkg_2, obj_2, seg_2) \<and>
      elems seg_2 0 2 = 3 \<and> elems seg_2 1 1 = 5 \<and>
      sep_extract example_libs
        (noise_replaced example_img_no_central seg_2
           (np_random_normal example_libs (Scalar 2) (Scalar 1) (3, 3)))
        (thr det_param_3_default) None (minarea det_param_3_default)
        (deb_n det_param_3_default) (deb_c det_param_3_default) = (obj_3, seg_3) \<and>
      image_clean_up example_libs example_figure (example_heap example_img_no_central) 0
        None NoMask bkg_param_1_default det_param_1_default bkg_param_2_default
        det_param_2_default bkg_param_3_default det_param_3_default False False
        = Inr (res, h') \<and>
      seg_index_cen_obj seg_1 = Inr None \<and>
      img_clean_of res \<noteq> 0 \<and>
      elems (cells h' 0) 0 2 = 500 \<and> elems (cells h' 0) 1 1 = 3 \<and>
      elems (cells h' (img_clean_of res)) 0 2 = 2 \<and>
      elems (cells h' (img_clean_of res)) 1 1 = 2 \<and>
      elems (cells h' (img_clean_of res)) 0 0 = 2)"
proof -
  let ?h = "example_heap example_img_no_central"
  let ?noise = "np_random_normal example_libs (Scalar 2) (Scalar 1) (shape (cells ?h 0))"
  have img: "cells ?h 0 = example_img_no_central" by (simp add: example_heap_def)
  have shp: "shape (cells ?h 0) = (3, 3)"
    by (simp add: example_heap_def example_img_no_central_def)
  have s: "lib_shapes example_libs" by (rule example_lib_shapes)
  have l: "(0::nat) < fresh ?h" by (simp add: example_heap_def)
  have g: "case None of None \<Rightarrow> True | Some s \<Rightarrow> s < fresh ?h" by simp
  have "\<exists>bkg_1 obj_1 seg_1.
      pass_1 example_libs (cells ?h 0) (map_option (cells ?h) None) NoMask
        bkg_param_1_default det_param_1_default = Inr (bkg_1, obj_1, seg_1) \<and>
      arr_get seg_1 (fst (shape seg_1) div 2) (snd (shape seg_1) div 2) = Inr 0 \<and>
      shape seg_1 = (3, 3)"
    by (simp add: clean_defs example_defs)
  then obtain bkg_1 obj_1 seg_1 where
    p1: "pass_1 example_libs (cells ?h 0) (map_option (cells ?h) None) NoMask
          bkg_param_1_default det_param_1_default = Inr (bkg_1, obj_1, seg_1)" and
    z: "arr_get seg_1 (fst (shape seg_1) div 2) (snd (shape seg_1) div 2) = Inr 0" and
    s1: "shape seg_1 = (3, 3)"
    by blast
  have "\<exists>bkg_2 obj_2 seg_2.
      pass_2 example_libs (cells ?h 0) (map_option (cells ?h) None) bkg_param_2_default
        det_param_2_default = (bkg_2, obj_2, seg_2) \<and>
      elems seg_2 0 2 = 3 \<and> elems seg_2 1 1 = 5 \<and> elems seg_2 0 0 = 0"
    by (simp add: clean_defs example_defs)
  then obtain bkg_2 obj_2 seg_2 where
    p2: "pass_2 example_libs (cells ?h 0) (map_option (cells ?h) None) bkg_param_2_default
          det_param_2_default = (bkg_2, obj_2, seg_2)" and
    v2: "elems seg_2 0 2 = 3" "elems seg_2 1 1 = 5" "elems seg_2 0 0 = 0"
    by blast
  have na: "noise_args (map_option (cells ?h) None)
              (sep_Background example_libs (cells ?h 0) (IntMask seg_2)
                 (bw bkg_param_3_default) (bh bkg_param_3_default)
                 (fw bkg_param_3_default) (fh bkg_param_3_default))
              = Inr (Scalar 2, Scalar 1)"
    by (simp add: noise_args_def example_defs)
  have n: "?noise = ?noise" by (rule refl)
  have vn: "\<And>r c. elems ?noise r c = 2" by (simp add: example_libs_def)
  have "\<exists>obj_3 seg_3.
      sep_extract example_libs (noise_replaced (cells ?h 0) seg_2 ?noise)
        (thr det_param_3_default) (map_option (cells ?h) None) (minarea det_param_3_default)
        (deb_n det_param_3_default) (deb_c det_param_3_default) = (obj_3, seg_3) \<and>
      elems seg_3 0 2 = 0 \<and> elems seg_3 1 1 = 0 \<and> elems seg_3 0 0 = 0"
    using v2 by (simp add: example_defs noise_replaced_def)
  then obtain obj_3 seg_3 where
    e3: "sep_extract example_libs (noise_replaced (cells ?h 0) seg_2 ?noise)
          (thr det_param_3_default) (map_option (cells ?h) None) (minarea det_param_3_default)
          (deb_n det_param_3_default) (deb_c det_param_3_default) = (obj_3, seg_3)" and
    v3: "elems seg_3 0 2 = 0" "elems seg_3 1 1 = 0" "elems seg_3 0 0 = 0"
    by blast
  from image_clean_up_no_central_object [where diagnose_image_clean = example_figure
      and visual = False and diagnose = False, OF s l g p1 z p2 na n e3]
  obtain res h' where
    up: "image_clean_up example_libs example_figure ?h 0 None NoMask bkg_param_1_default
           det_param_1_default bkg_param_2_default det_param_2_default bkg_param_3_default
           det_param_3_default False False = Inr (res, h')" and
    cen: "seg_index_cen_obj seg_1 = Inr None" and
    ne: "img_clean_of res \<noteq> 0" and
    keep: "cells h' 0 = cells ?h 0" and
    px: "\<forall>r c. elems (cells h' (img_clean_of res)) r c =
                  (if elems seg_2 r c + elems seg_3 r c > 0
                   then elems ?noise r c else elems (cells ?h 0) r c)"
    by blast
  have a: "elems (cells h' 0) 0 2 = 500" "elems (cells h' 0) 1 1 = 3"
    using keep by (simp_all add: example_heap_def example_img_no_central_def)
  have b: "elems (cells h' (img_clean_of res)) 0 2 = 2"
    "elems (cells h' (img_clean_of res)) 1 1 = 2"
    "elems (cells h' (img_clean_of res)) 0 0 = 2"
    using px v2 v3 vn by (simp_all add: example_heap_def example_img_no_central_def)
  have z': "arr_get seg_1 1 1 = Inr 0" using z s1 by simp
  have p1': "pass_1 example_libs example_img_no_central None NoMask bkg_param_1_default
               det_param_1_default = Inr (bkg_1, obj_1, seg_1)"
    using p1 by (simp add: img)
  have p2': "pass_2 example_libs example_img_no_central None bkg_param_2_default
               det_param_2_default = (bkg_2, obj_2, seg_2)"
    using p2 by (simp add: img)
  have e3': "sep_extract example_libs
               (noise_replaced example_img_no_central seg_2
                  (np_random_normal example_libs (Scalar 2) (Scalar 1) (3, 3)))
               (thr det_param_3_default) None (minarea det_param_3_default)
               (deb_n det_param_3_default) (deb_c det_param_3_default) = (obj_3, seg_3)"
    using e3 by (simp add: img) (simp add: example_img_no_central_def)
  show ?thesis
    by (intro conjI exI) (fact s l p1' z' p2' v2 e3' up cen ne a b)+
qed

end
